theory Spec2Isabelle
  imports Main "HOL-Library.List_Lexorder" "HOL-Library.FSet"
begin

section \<open>Python values and strings\<close>

text \<open>
  A Python \<open>str\<close> is a sequence of Unicode code points; \<open>len\<close> counts code points.
  It is modelled as a list of naturals, one per code point. \<open>u\<close> turns a literal of
  the source into that representation.
\<close>

type_synonym pystr = "nat list"

definition u :: "string \<Rightarrow> pystr" where
  "u s = map of_char s"

text \<open>\<open>str.isspace\<close> of one character: the code points CPython classifies as whitespace.\<close>

definition isspace :: "nat \<Rightarrow> bool" where
  "isspace ch =
     (ch \<in> {9, 10, 11, 12, 13, 28, 29, 30, 31, 32, 133, 160, 5760, 8232, 8233, 8239, 8287, 12288}
      \<or> (8192 \<le> ch \<and> ch \<le> 8202))"

text \<open>\<open>s.strip()\<close> and \<open>s.rstrip("\n")\<close>.\<close>

definition strip :: "pystr \<Rightarrow> pystr" where
  "strip s = rev (dropWhile isspace (rev (dropWhile isspace s)))"

definition rstrip_nl :: "pystr \<Rightarrow> pystr" where
  "rstrip_nl s = rev (dropWhile (\<lambda>ch. ch = 10) (rev s))"

text \<open>
  The values \<open>json.loads\<close> puts into a message dict. Null, booleans, integers and
  strings are kept as they are. A float, list or nested dict is carried as what the
  server can observe of it: the text \<open>str()\<close> gives, its truth value, and the result of
  \<open>int()\<close> on it (\<open>None\<close> where \<open>int()\<close> raises).
\<close>

datatype jval =
    JNull
  | JBool bool
  | JInt int
  | JStr pystr
  | JOther pystr bool "int option"

type_synonym msg = "pystr \<rightharpoonup> jval"

text \<open>\<open>m.get(key, default)\<close>\<close>

definition get :: "msg \<Rightarrow> pystr \<Rightarrow> jval \<Rightarrow> jval" where
  "get m k d = (case m k of None \<Rightarrow> d | Some v \<Rightarrow> v)"

fun dec_nat :: "nat \<Rightarrow> pystr" where
  "dec_nat n = (if n < 10 then [48 + n] else dec_nat (n div 10) @ [48 + n mod 10])"

declare dec_nat.simps [simp del]

text \<open>\<open>str(v)\<close>\<close>

fun py_str :: "jval \<Rightarrow> pystr" where
  "py_str JNull = u ''None''"
| "py_str (JBool b) = (if b then u ''True'' else u ''False'')"
| "py_str (JInt i) = (if i < 0 then 45 # dec_nat (nat (- i)) else dec_nat (nat i))"
| "py_str (JStr s) = s"
| "py_str (JOther r t i) = r"

text \<open>Truth value of a message value, as \<open>v or 0\<close> tests it.\<close>

fun truthy :: "jval \<Rightarrow> bool" where
  "truthy JNull = False"
| "truthy (JBool b) = b"
| "truthy (JInt i) = (i \<noteq> 0)"
| "truthy (JStr s) = (s \<noteq> [])"
| "truthy (JOther r t i) = t"

text \<open>Truth value of an \<open>Optional[str]\<close> field: \<open>None\<close> and the empty string are false.\<close>

fun truthy_str :: "pystr option \<Rightarrow> bool" where
  "truthy_str None = False"
| "truthy_str (Some s) = (s \<noteq> [])"

text \<open>How an f-string renders an \<open>Optional[str]\<close>.\<close>

fun fmt :: "pystr option \<Rightarrow> pystr" where
  "fmt None = u ''None''"
| "fmt (Some s) = s"

text \<open>
  Library functions whose exact behaviour depends on the Python version are parameters
  of the model: \<open>int()\<close> applied to a string (\<open>None\<close> where it raises), and whether
  \<open>base64.b64decode(data.encode("ascii"), validate=True)\<close> returns without raising.
\<close>

record pylib =
  int_of_str :: "pystr \<Rightarrow> int option"
  b64decode_ok :: "pystr \<Rightarrow> bool"

text \<open>\<open>int(v)\<close>; \<open>None\<close> stands for the \<open>TypeError\<close>, \<open>ValueError\<close> or \<open>OverflowError\<close>.\<close>

fun py_int :: "pylib \<Rightarrow> jval \<Rightarrow> int option" where
  "py_int lib JNull = None"
| "py_int lib (JBool b) = Some (if b then 1 else 0)"
| "py_int lib (JInt i) = Some i"
| "py_int lib (JStr s) = int_of_str lib s"
| "py_int lib (JOther r t i) = i"

text \<open>\<open>int(m.get(key, 0) or 0)\<close>\<close>

definition int_field :: "pylib \<Rightarrow> msg \<Rightarrow> pystr \<Rightarrow> int option" where
  "int_field lib m k = (let v = get m k (JInt 0) in py_int lib (if truthy v then v else JInt 0))"

section \<open>Data model of the server\<close>

text \<open>
  A \<open>Client\<close> object is compared and hashed by identity, so a connection is identified
  by an address \<open>cid\<close> into a store of client objects.
\<close>

type_synonym cid = nat

record file_meta =
  meta_from :: "pystr option"
  meta_room :: "pystr option"
  meta_filename :: pystr
  meta_size :: int

text \<open>
  The dicts the server sends, one constructor per \<open>type\<close>. The \<open>ts\<close> entry, a reading
  of the wall clock, is left out.
\<close>

datatype out_event =
    Info pystr
  | Error pystr
  | Msg "pystr option" "pystr option" pystr
  | Pm "pystr option" pystr
  | Room_list "pystr list"
  | User_list "pystr option" "pystr list"
  | File_ack pystr
  | File_start pystr file_meta
  | File_chunk pystr int pystr "pystr option"
  | File_end pystr "pystr option"

text \<open>
  \<open>Msg room from text\<close>, \<open>Pm from text\<close>, \<open>User_list room users\<close> (no \<open>room\<close> key when
  \<open>None\<close>), \<open>File_chunk id seq data from\<close>, \<open>File_end id from\<close>.
  Of a client the model keeps the name, the room, the outbound queue, whether
  \<open>writer.close()\<close> has been called, and what has been written to the peer.
\<close>

record client =
  name :: "pystr option"
  room :: "pystr option"
  out_q :: "out_event list"
  writer_closed :: bool
  sent :: "out_event list"

record event =
  ev_client :: cid
  ev_msg :: msg

record chat_server =
  clients :: "cid \<Rightarrow> client"
  events :: "event list"
  rooms :: "pystr \<rightharpoonup> cid fset"
  clients_by_name :: "pystr \<rightharpoonup> cid"
  files :: "pystr \<rightharpoonup> file_meta"


definition DEFAULT_ROOM :: pystr where
  "DEFAULT_ROOM = u ''lobby''"

definition out_q_maxsize :: nat where
  "out_q_maxsize = 200"


definition new_client :: client where
  "new_client = \<lparr>name = None, room = None, out_q = [], writer_closed = False, sent = []\<rparr>"

definition init_server :: chat_server where
  "init_server = \<lparr>clients = (\<lambda>_. new_client), events = [], rooms = Map.empty,
     clients_by_name = Map.empty, files = Map.empty\<rparr>"

section \<open>Queues and broadcast\<close>

text \<open>
  A coroutine of the server either returns, raises, or suspends at an \<open>await\<close> that
  cannot complete at once. The only such \<open>await\<close> inside a handler is \<open>out_q.put\<close> on a
  full queue; what follows a suspension depends on the other tasks and is not modelled:
  the state returned is the one at the point of suspension.
\<close>

datatype status = Returned | Raised | Suspended

type_synonym coroutine = "chat_server \<Rightarrow> status \<times> chat_server"

definition then_do :: "coroutine \<Rightarrow> coroutine \<Rightarrow> coroutine" where
  "then_do f g s = (case f s of (Returned, s') \<Rightarrow> g s' | r \<Rightarrow> r)"

definition q_full :: "client \<Rightarrow> bool" where
  "q_full cl = (length (out_q cl) \<ge> out_q_maxsize)"

definition enqueue :: "out_event \<Rightarrow> client \<Rightarrow> client" where
  "enqueue e cl = cl\<lparr>out_q := out_q cl @ [e]\<rparr>"

text \<open>\<open>cl.out_q.put_nowait(payload)\<close> with \<open>QueueFull\<close> swallowed, as \<open>_broadcast\<close> does.\<close>

definition put_nowait :: "out_event \<Rightarrow> client \<Rightarrow> client" where
  "put_nowait e cl = (if q_full cl then cl else enqueue e cl)"

text \<open>The state after \<open>e\<close> has been appended to the outbound queue of \<open>c\<close>.\<close>

definition enqueue_to :: "cid \<Rightarrow> out_event \<Rightarrow> chat_server \<Rightarrow> chat_server" where
  "enqueue_to c e s = s\<lparr>clients := (clients s)(c := enqueue e (clients s c))\<rparr>"

text \<open>\<open>await c.out_q.put(e)\<close>\<close>

definition put :: "cid \<Rightarrow> out_event \<Rightarrow> coroutine" where
  "put c e s =
     (if q_full (clients s c) then (Suspended, s) else (Returned, enqueue_to c e s))"

text \<open>\<open>self._rooms.get(room, set())\<close>\<close>

definition members :: "chat_server \<Rightarrow> pystr \<Rightarrow> cid fset" where
  "members s r = (case rooms s r of None \<Rightarrow> {||} | Some S \<Rightarrow> S)"

text \<open>
  \<open>_broadcast\<close>: the loop over the snapshot \<open>targets\<close> of the member set. Python walks
  a set in an order of its own; the snapshot is taken here in increasing order of the
  addresses (\<open>broadcast_clients\<close> below: the order does not show in the result).
\<close>

fun deliver_all :: "cid list \<Rightarrow> out_event \<Rightarrow> cid option \<Rightarrow> chat_server \<Rightarrow> chat_server" where
  "deliver_all [] payload exclude s = s"
| "deliver_all (cl # targets) payload exclude s =
     deliver_all targets payload exclude
       (if exclude = Some cl then s
        else s\<lparr>clients := (clients s)(cl := put_nowait payload (clients s cl))\<rparr>)"

definition broadcast :: "pystr \<Rightarrow> out_event \<Rightarrow> cid option \<Rightarrow> chat_server \<Rightarrow> chat_server" where
  "broadcast r payload exclude s =
     deliver_all (sorted_list_of_fset (members s r)) payload exclude s"

section \<open>Rooms and names\<close>

text \<open>\<open>self._rooms.get(r, set()).discard(c)\<close>\<close>

definition discard :: "pystr \<Rightarrow> cid \<Rightarrow> chat_server \<Rightarrow> chat_server" where
  "discard r c s =
     (case rooms s r of None \<Rightarrow> s | Some S \<Rightarrow> s\<lparr>rooms := (rooms s)(r \<mapsto> S |-| {|c|})\<rparr>)"

text \<open>\<open>if r in self._rooms and not self._rooms[r]: del self._rooms[r]\<close>\<close>

definition del_if_empty :: "pystr \<Rightarrow> chat_server \<Rightarrow> chat_server" where
  "del_if_empty r s =
     (case rooms s r of None \<Rightarrow> s
      | Some S \<Rightarrow> if S = {||} then s\<lparr>rooms := (rooms s)(r := None)\<rparr> else s)"

definition set_room :: "cid \<Rightarrow> pystr \<Rightarrow> chat_server \<Rightarrow> chat_server" where
  "set_room c r s = s\<lparr>clients := (clients s)(c := (clients s c)\<lparr>room := Some r\<rparr>)\<rparr>"

definition set_name :: "cid \<Rightarrow> pystr \<Rightarrow> chat_server \<Rightarrow> chat_server" where
  "set_name c n s = s\<lparr>clients := (clients s)(c := (clients s c)\<lparr>name := Some n\<rparr>)\<rparr>"

text \<open>
  \<open>if c.name and c.name in self._clients_by_name and self._clients_by_name[c.name] is c:
  del self._clients_by_name[c.name]\<close> of \<open>_handle_hello\<close>, which is also what
  \<open>if client.name and self._clients_by_name.get(client.name) is client: del ...\<close> of
  \<open>_cleanup_client\<close> does.
\<close>

definition release_name :: "cid \<Rightarrow> chat_server \<Rightarrow> chat_server" where
  "release_name c s =
     (case name (clients s c) of
        None \<Rightarrow> s
      | Some old \<Rightarrow>
          if old \<noteq> [] \<and> clients_by_name s old = Some c
          then s\<lparr>clients_by_name := (clients_by_name s)(old := None)\<rparr> else s)"

text \<open>\<open>self._clients_by_name[n] = c\<close>\<close>

definition bind_name :: "pystr \<Rightarrow> cid \<Rightarrow> chat_server \<Rightarrow> chat_server" where
  "bind_name n c s = s\<lparr>clients_by_name := (clients_by_name s)(n \<mapsto> c)\<rparr>"

text \<open>\<open>self._rooms.setdefault(r, set()).add(c)\<close>\<close>

definition add_member :: "pystr \<Rightarrow> cid \<Rightarrow> chat_server \<Rightarrow> chat_server" where
  "add_member r c s = s\<lparr>rooms := (rooms s)(r \<mapsto> finsert c (members s r))\<rparr>"

definition leave_old :: "cid \<Rightarrow> chat_server \<Rightarrow> chat_server" where
  "leave_old c s =
     (case room (clients s c) of
        None \<Rightarrow> s
      | Some old \<Rightarrow>
          if old = [] then s
          else del_if_empty old
                 (broadcast old (Info (fmt (name (clients s c)) @ u '' left room '' @ old)) (Some c)
                    (discard old c s)))"

definition join_room :: "cid \<Rightarrow> pystr \<Rightarrow> coroutine" where
  "join_room c r s =
     (if room (clients s c) = Some r
      then put c (Info (u ''You are already in room '' @ r)) s
      else then_do (put c (Info (u ''You joined room '' @ r)))
             (\<lambda>s'. (Returned,
                broadcast r (Info (fmt (name (clients s' c)) @ u '' joined room '' @ r)) (Some c) s'))
             (add_member r c (set_room c r (leave_old c s))))"

section \<open>Handlers\<close>

definition handle_hello :: "cid \<Rightarrow> msg \<Rightarrow> coroutine" where
  "handle_hello c m s =
     (let nm = strip (py_str (get m (u ''name'') (JStr []))) in
      if nm = [] \<or> length nm > 32 \<or> list_ex isspace nm
      then put c (Error (u ''Invalid name (max 32 chars, no spaces)'')) s
      else if (case clients_by_name s nm of None \<Rightarrow> False | Some d \<Rightarrow> d \<noteq> c)
      then put c (Error (u ''Name already taken'')) s
      else
        then_do
          (put c (Info (u ''You are logged in as '' @ nm @ u ''. Use join to pick a room.'')))
          (\<lambda>s'. if \<not> truthy_str (room (clients s' c)) then join_room c DEFAULT_ROOM s'
                 else (Returned, s'))
          (bind_name nm c (set_name c nm (release_name c s))))"

definition handle_join :: "cid \<Rightarrow> msg \<Rightarrow> coroutine" where
  "handle_join c m s =
     (if \<not> truthy_str (name (clients s c)) then put c (Error (u ''Send hello first'')) s
      else
        let r = strip (py_str (get m (u ''room'') (JStr []))) in
        if r = [] \<or> length r > 40 then put c (Error (u ''Invalid room name'')) s
        else join_room c r s)"

definition handle_msg :: "cid \<Rightarrow> msg \<Rightarrow> coroutine" where
  "handle_msg c m s =
     (if \<not> truthy_str (name (clients s c)) then put c (Error (u ''Send hello first'')) s
      else if \<not> truthy_str (room (clients s c)) then put c (Error (u ''Join a room first'')) s
      else
        let text = rstrip_nl (py_str (get m (u ''text'') (JStr []))) in
        if text = [] then (Returned, s)
        else if length text > 2000 then put c (Error (u ''Message too long'')) s
        else (Returned,
              broadcast (the (room (clients s c)))
                (Msg (room (clients s c)) (name (clients s c)) text) None s))"

definition handle_pm :: "cid \<Rightarrow> msg \<Rightarrow> coroutine" where
  "handle_pm c m s =
     (if \<not> truthy_str (name (clients s c)) then put c (Error (u ''Send hello first'')) s
      else
        let to = strip (py_str (get m (u ''to'') (JStr [])));
            text = rstrip_nl (py_str (get m (u ''text'') (JStr [])))
        in
        if to = [] \<or> text = [] then put c (Error (u ''PM format: to + text'')) s
        else
          case clients_by_name s to of
            None \<Rightarrow> put c (Error (u ''User '' @ to @ u '' not found'')) s
          | Some dst \<Rightarrow>
              then_do (put dst (Pm (name (clients s c)) text))
                (put c (Info (u ''PM sent -> '' @ to))) s)"

definition handle_list_rooms :: "cid \<Rightarrow> coroutine" where
  "handle_list_rooms c s = put c (Room_list (sorted_list_of_set (dom (rooms s)))) s"

definition handle_list_users :: "cid \<Rightarrow> coroutine" where
  "handle_list_users c s =
     (if \<not> truthy_str (room (clients s c)) then put c (User_list None []) s
      else put c (User_list (room (clients s c))
             (sort (map (\<lambda>x. the (name (clients s x)))
                (filter (\<lambda>x. truthy_str (name (clients s x)))
                   (sorted_list_of_fset (members s (the (room (clients s c))))))))) s)"

text \<open>
  \<open>_handle_file\<close>. \<open>uid\<close> is the value \<open>uuid.uuid4().hex\<close> returns on this call.
\<close>

definition file_start :: "pylib \<Rightarrow> pystr \<Rightarrow> cid \<Rightarrow> msg \<Rightarrow> coroutine" where
  "file_start lib uid c m s =
     (let filename = take 200 (strip (py_str (get m (u ''filename'') (JStr [])))) in
      case int_field lib m (u ''size'') of
        None \<Rightarrow> (Raised, s)
      | Some sz \<Rightarrow>
          if filename = [] \<or> sz < 0 \<or> sz > 200 * 1024 * 1024
          then put c (Error (u ''Invalid file (name/size)'')) s
          else
            let meta = \<lparr>meta_from = name (clients s c), meta_room = room (clients s c),
                        meta_filename = filename, meta_size = sz\<rparr>
            in then_do (put c (File_ack uid))
                 (\<lambda>s'. (Returned,
                    broadcast (the (room (clients s' c))) (File_start uid meta) (Some c) s'))
                 (s\<lparr>files := (files s)(uid \<mapsto> meta)\<rparr>))"

definition file_chunk :: "pylib \<Rightarrow> cid \<Rightarrow> msg \<Rightarrow> coroutine" where
  "file_chunk lib c m s =
     (let fid = strip (py_str (get m (u ''id'') (JStr []))) in
      case files s fid of
        None \<Rightarrow> put c (Error (u ''Unknown file id'')) s
      | Some meta \<Rightarrow>
          if meta_from meta \<noteq> name (clients s c) \<or> meta_room meta \<noteq> room (clients s c)
          then put c (Error (u ''Forbidden file_chunk'')) s
          else
            (case int_field lib m (u ''seq'') of
               None \<Rightarrow> (Raised, s)
             | Some seq \<Rightarrow>
                 (case get m (u ''data'') (JStr []) of
                    JStr data \<Rightarrow>
                      if length data > 200000 then put c (Error (u ''Chunk too large'')) s
                      else if \<not> b64decode_ok lib data then put c (Error (u ''Invalid base64'')) s
                      else (Returned,
                            broadcast (the (room (clients s c)))
                              (File_chunk fid seq data (name (clients s c))) (Some c) s)
                  | _ \<Rightarrow> put c (Error (u ''Chunk too large'')) s)))"

definition file_end :: "cid \<Rightarrow> msg \<Rightarrow> coroutine" where
  "file_end c m s =
     (let fid = strip (py_str (get m (u ''id'') (JStr []))) in
      case files s fid of
        None \<Rightarrow> put c (Error (u ''Unknown file id'')) s
      | Some meta \<Rightarrow>
          if meta_from meta \<noteq> name (clients s c) \<or> meta_room meta \<noteq> room (clients s c)
          then put c (Error (u ''Forbidden file_end'')) s
          else
            let s1 = broadcast (the (room (clients s c)))
                       (File_end fid (name (clients s c))) (Some c) s
            in (Returned, s1\<lparr>files := (files s1)(fid := None)\<rparr>))"

definition handle_file :: "pylib \<Rightarrow> pystr \<Rightarrow> cid \<Rightarrow> msg \<Rightarrow> coroutine" where
  "handle_file lib uid c m s =
     (if \<not> truthy_str (name (clients s c)) \<or> \<not> truthy_str (room (clients s c))
      then put c (Error (u ''File transfer requires hello + join'')) s
      else
        case m (u ''type'') of
          None \<Rightarrow> (Raised, s)
        | Some t \<Rightarrow>
            if t = JStr (u ''file_start'') then file_start lib uid c m s
            else if t = JStr (u ''file_chunk'') then file_chunk lib c m s
            else if t = JStr (u ''file_end'') then file_end c m s
            else (Returned, s))"

section \<open>Dispatcher, reader, writer, cleanup\<close>

definition route :: "pylib \<Rightarrow> pystr \<Rightarrow> cid \<Rightarrow> msg \<Rightarrow> coroutine" where
  "route lib uid c m s =
     (let mtype = get m (u ''type'') JNull in
      if mtype = JStr (u ''hello'') then handle_hello c m s
      else if mtype = JStr (u ''join'') then handle_join c m s
      else if mtype = JStr (u ''msg'') then handle_msg c m s
      else if mtype = JStr (u ''pm'') then handle_pm c m s
      else if mtype = JStr (u ''list_rooms'') then handle_list_rooms c s
      else if mtype = JStr (u ''list_users'') then handle_list_users c s
      else if mtype \<in> {JStr (u ''file_start''), JStr (u ''file_chunk''), JStr (u ''file_end'')}
      then handle_file lib uid c m s
      else put c (Error (u ''Unknown type='' @ py_str mtype)) s)"

text \<open>
  One turn of the \<open>while True\<close> loop of \<open>_dispatcher\<close> on the event \<open>ev\<close> taken from the
  queue: the \<open>try\<close> around the handlers and its \<open>except Exception\<close> clause.
\<close>

definition dispatch :: "pylib \<Rightarrow> pystr \<Rightarrow> event \<Rightarrow> coroutine" where
  "dispatch lib uid ev s =
     (case route lib uid (ev_client ev) (ev_msg ev) s of
        (Raised, s') \<Rightarrow> put (ev_client ev) (Error (u ''Server-side processing error'')) s'
      | r \<Rightarrow> r)"

text \<open>
  The loop itself, on the events that are in the queue: it takes the oldest event,
  handles it and goes on. It is suspended when the queue is empty (\<open>await self._events.get()\<close>)
  or when a handler is.
\<close>

fun dispatcher :: "pylib \<Rightarrow> pystr list \<Rightarrow> nat \<Rightarrow> coroutine" where
  "dispatcher lib uids 0 s = (Returned, s)"
| "dispatcher lib uids (Suc n) s =
     (case events s of
        [] \<Rightarrow> (Suspended, s)
      | ev # rest \<Rightarrow>
          (case dispatch lib (hd uids) ev (s\<lparr>events := rest\<rparr>) of
             (Returned, s') \<Rightarrow> dispatcher lib (tl uids) n s'
           | r \<Rightarrow> r))"

text \<open>
  One line of \<open>_read_loop\<close>. \<open>readline\<close> either raises \<open>ValueError\<close> (the line exceeds the
  stream limit) or gives a line of some number of bytes, on which
  \<open>json.loads(line.decode("utf-8"))\<close> raises, or gives a value that is not a dict, or
  gives a dict.
\<close>

datatype parsed = Not_json | Not_dict | Dict msg







definition cleanup_client :: "cid \<Rightarrow> chat_server \<Rightarrow> chat_server" where
  "cleanup_client c s =
     (let s1 = (case room (clients s c) of
                  None \<Rightarrow> s
                | Some r \<Rightarrow> if r = [] then s else del_if_empty r (discard r c s));
          s2 = release_name c s1
      in s2\<lparr>clients := (clients s2)(c := (clients s2 c)\<lparr>writer_closed := True\<rparr>)\<rparr>)"

section \<open>Invariants of the registries\<close>

text \<open>
  \<open>registry_inv\<close>: no room of the room map is empty; a connection that is in the member
  set of a room has that room in its \<open>room\<close> field (so it is in at most one); an entry of
  the name table points to a connection whose \<open>name\<close> field is the key.
\<close>

definition registry_inv :: "chat_server \<Rightarrow> bool" where
  "registry_inv s =
     ((\<forall>r S. rooms s r = Some S \<longrightarrow> S \<noteq> {||}) \<and>
      (\<forall>r S i. rooms s r = Some S \<and> i |\<in>| S \<longrightarrow> room (clients s i) = Some r) \<and>
      (\<forall>n i. clients_by_name s n = Some i \<longrightarrow> name (clients s i) = Some n))"

text \<open>
  \<open>wf_server\<close> adds what makes the invariant inductive: the empty string is no key of
  either table and no name or room of a connection, and a connection whose writer has
  not been closed is a member of the room its \<open>room\<close> field names.
\<close>

definition wf_server :: "chat_server \<Rightarrow> bool" where
  "wf_server s =
     (registry_inv s \<and> rooms s [] = None \<and> clients_by_name s [] = None \<and>
      (\<forall>i r. \<not> writer_closed (clients s i) \<and> room (clients s i) = Some r \<and> r \<noteq> []
          \<longrightarrow> i |\<in>| members s r) \<and>
      (\<forall>i. room (clients s i) \<noteq> Some [] \<and> name (clients s i) \<noteq> Some []))"

text \<open>\<open>same_registry s s'\<close>: from \<open>s\<close> to \<open>s'\<close> only queues, files and events changed.\<close>

definition same_registry :: "chat_server \<Rightarrow> chat_server \<Rightarrow> bool" where
  "same_registry s s' =
     (rooms s' = rooms s \<and> clients_by_name s' = clients_by_name s \<and>
      (\<forall>i. name (clients s' i) = name (clients s i) \<and> room (clients s' i) = room (clients s i) \<and>
           writer_closed (clients s' i) = writer_closed (clients s i)))"

section \<open>States the server can reach\<close>


section \<open>Worked examples\<close>

text \<open>
  An instance of the library parameters for the examples: \<open>int()\<close> on strings of ASCII
  digits, and a base64 check that accepts the empty string and \<open>aGk=\<close> (the encoding of
  \<open>hi\<close>). Python accepts more; nothing below depends on what this instance rejects.
\<close>

definition example_lib :: pylib where
  "example_lib =
     \<lparr>int_of_str = (\<lambda>s. if s \<noteq> [] \<and> list_all (\<lambda>ch. 48 \<le> ch \<and> ch \<le> 57) s
                         then Some (int (foldl (\<lambda>a ch. 10 * a + (ch - 48)) 0 s)) else None),
      b64decode_ok = (\<lambda>d. d = [] \<or> d = u ''aGk='')\<rparr>"


definition hello_of :: "string \<Rightarrow> msg" where
  "hello_of n = [u ''type'' \<mapsto> JStr (u ''hello''), u ''name'' \<mapsto> JStr (u n)]"


definition msg_of :: "pystr \<Rightarrow> msg" where
  "msg_of t = [u ''type'' \<mapsto> JStr (u ''msg''), u ''text'' \<mapsto> JStr t]"

definition join_of :: "pystr \<Rightarrow> msg" where
  "join_of r = [u ''type'' \<mapsto> JStr (u ''join''), u ''room'' \<mapsto> JStr r]"

definition pm_of :: "pystr \<Rightarrow> pystr \<Rightarrow> msg" where
  "pm_of to t = [u ''type'' \<mapsto> JStr (u ''pm''), u ''to'' \<mapsto> JStr to, u ''text'' \<mapsto> JStr t]"

definition file_start_of :: "pystr \<Rightarrow> jval \<Rightarrow> msg" where
  "file_start_of fname sz =
     [u ''type'' \<mapsto> JStr (u ''file_start''), u ''filename'' \<mapsto> JStr fname, u ''size'' \<mapsto> sz]"

definition file_chunk_of :: "pystr \<Rightarrow> int \<Rightarrow> pystr \<Rightarrow> msg" where
  "file_chunk_of fid seq data =
     [u ''type'' \<mapsto> JStr (u ''file_chunk''), u ''id'' \<mapsto> JStr fid, u ''seq'' \<mapsto> JInt seq,
      u ''data'' \<mapsto> JStr data]"

definition file_end_of :: "pystr \<Rightarrow> msg" where
  "file_end_of fid = [u ''type'' \<mapsto> JStr (u ''file_end''), u ''id'' \<mapsto> JStr fid]"




section \<open>Basic facts\<close>

lemma u_eq_iff [simp]: "(u a = u b) = (a = b)"
  by (simp add: u_def inj_map_eq_map inj_on_def)

lemma length_u [simp]: "length (u a) = length a"
  by (simp add: u_def)

lemma u_Nil_iff [simp]: "(u a = []) = (a = [])" "([] = u a) = (a = [])"
  by (auto simp: u_def)

lemma distinct_targets: "distinct (sorted_list_of_fset S)"
  by (simp add: sorted_list_of_fset.rep_eq)

lemma deliver_all_other [simp]:
  "rooms (deliver_all xs p ex s) = rooms s"
  "clients_by_name (deliver_all xs p ex s) = clients_by_name s"
  "files (deliver_all xs p ex s) = files s"
  "events (deliver_all xs p ex s) = events s"
  by (induction xs arbitrary: s) auto

lemma deliver_all_clients:
  "distinct xs \<Longrightarrow> clients (deliver_all xs p ex s) cl =
     (if cl \<in> set xs \<and> ex \<noteq> Some cl then put_nowait p (clients s cl) else clients s cl)"
  by (induction xs arbitrary: s) auto

lemma broadcast_clients:
  "clients (broadcast r p ex s) cl =
     (if cl |\<in>| members s r \<and> ex \<noteq> Some cl then put_nowait p (clients s cl) else clients s cl)"
  by (simp add: broadcast_def deliver_all_clients distinct_targets)

lemma broadcast_other [simp]:
  "rooms (broadcast r p ex s) = rooms s"
  "clients_by_name (broadcast r p ex s) = clients_by_name s"
  "files (broadcast r p ex s) = files s"
  "events (broadcast r p ex s) = events s"
  by (simp_all add: broadcast_def)

lemma members_broadcast [simp]: "members (broadcast r p ex s) r' = members s r'"
  by (simp add: members_def)

lemma put_nowait_fields [simp]:
  "name (put_nowait e cl) = name cl"
  "room (put_nowait e cl) = room cl"
  "writer_closed (put_nowait e cl) = writer_closed cl"
  "sent (put_nowait e cl) = sent cl"
  by (simp_all add: put_nowait_def enqueue_def)

lemma enqueue_fields [simp]:
  "name (enqueue e cl) = name cl"
  "room (enqueue e cl) = room cl"
  "writer_closed (enqueue e cl) = writer_closed cl"
  "sent (enqueue e cl) = sent cl"
  "out_q (enqueue e cl) = out_q cl @ [e]"
  by (simp_all add: enqueue_def)

lemma broadcast_fields [simp]:
  "name (clients (broadcast r p ex s) cl) = name (clients s cl)"
  "room (clients (broadcast r p ex s) cl) = room (clients s cl)"
  "writer_closed (clients (broadcast r p ex s) cl) = writer_closed (clients s cl)"
  "sent (clients (broadcast r p ex s) cl) = sent (clients s cl)"
  by (simp_all add: broadcast_clients)

section \<open>Broadcast is lossy and never blocks\<close>

text \<open>
  C7. \<open>_broadcast\<close> is a total function of the state: it returns, raising nothing
  and never suspending. It touches no registry and no event queue. Each member of the room
  other than the connection passed as \<open>exclude\<close> gets the payload appended to its
  outbound queue when that queue holds fewer than 200 entries, and is left as it was when
  the queue is full; whether one member's queue is full has no effect on any other
  member. Connections outside the room, and the excluded one, are left unchanged.
\<close>

theorem broadcast_delivery:
  "rooms (broadcast r payload exclude s) = rooms s \<and>
   clients_by_name (broadcast r payload exclude s) = clients_by_name s \<and>
   files (broadcast r payload exclude s) = files s \<and>
   events (broadcast r payload exclude s) = events s \<and>
   (\<forall>cl. clients (broadcast r payload exclude s) cl =
      (if cl |\<in>| members s r \<and> exclude \<noteq> Some cl
       then (if length (out_q (clients s cl)) < 200
             then (clients s cl)\<lparr>out_q := out_q (clients s cl) @ [payload]\<rparr>
             else clients s cl)
       else clients s cl))"
  by (auto simp: broadcast_clients put_nowait_def q_full_def out_q_maxsize_def enqueue_def)

section \<open>The invariant is kept by every step\<close>

lemma same_registry_refl [simp]: "same_registry s s"
  by (simp add: same_registry_def)

lemma same_registry_trans: "same_registry s s' \<Longrightarrow> same_registry s' s'' \<Longrightarrow> same_registry s s''"
  by (simp add: same_registry_def)


lemma put_cases:
  "put c e s = (Suspended, s) \<and> q_full (clients s c) \<or>
   put c e s = (Returned, enqueue_to c e s) \<and> \<not> q_full (clients s c)"
  by (simp add: put_def)






lemma leave_old_fields [simp]:
  "clients_by_name (leave_old c s) = clients_by_name s"
  "files (leave_old c s) = files s"
  "events (leave_old c s) = events s"
  "name (clients (leave_old c s) i) = name (clients s i)"
  "room (clients (leave_old c s) i) = room (clients s i)"
  "writer_closed (clients (leave_old c s) i) = writer_closed (clients s i)"
  by (auto simp: leave_old_def del_if_empty_def discard_def split: option.splits)













lemma move_fields [simp]:
  "clients_by_name (add_member r c (set_room c r s)) = clients_by_name s"
  "name (clients (add_member r c (set_room c r s)) i) = name (clients s i)"
  "writer_closed (clients (add_member r c (set_room c r s)) i) = writer_closed (clients s i)"
  "room (clients (add_member r c (set_room c r s)) i) = (if i = c then Some r else room (clients s i))"
  "rooms (add_member r c (set_room c r s)) r' =
     (if r' = r then Some (finsert c (members s r)) else rooms s r')"
  "members (add_member r c (set_room c r s)) r' =
     (if r' = r then finsert c (members s r) else members s r')"
  by (auto simp: add_member_def set_room_def members_def)







lemma wf_events_update [simp]: "wf_server (s\<lparr>events := e\<rparr>) = wf_server s"
  by (simp add: wf_server_def registry_inv_def members_def)

lemma wf_files_update [simp]: "wf_server (s\<lparr>files := f\<rparr>) = wf_server s"
  by (simp add: wf_server_def registry_inv_def members_def)


lemma DEFAULT_ROOM_nonempty [simp]: "DEFAULT_ROOM \<noteq> []"
  by (simp add: DEFAULT_ROOM_def)

















section \<open>Facts about the worked examples\<close>




section \<open>Registry invariant\<close>



section \<open>Cleanup\<close>

lemma cleanup_files [simp]: "files (cleanup_client c s) = files s"
  by (simp add: cleanup_client_def Let_def release_name_def del_if_empty_def discard_def
      split: option.splits)




section \<open>Effect of the elementary updates\<close>

lemma enqueue_to_fields [simp]:
  "rooms (enqueue_to c e s) = rooms s"
  "clients_by_name (enqueue_to c e s) = clients_by_name s"
  "files (enqueue_to c e s) = files s"
  "events (enqueue_to c e s) = events s"
  "members (enqueue_to c e s) r = members s r"
  "clients (enqueue_to c e s) i = (if i = c then enqueue e (clients s c) else clients s i)"
  by (simp_all add: enqueue_to_def members_def)

lemma set_name_fields [simp]:
  "rooms (set_name c n s) = rooms s"
  "clients_by_name (set_name c n s) = clients_by_name s"
  "files (set_name c n s) = files s"
  "events (set_name c n s) = events s"
  "members (set_name c n s) r = members s r"
  "clients (set_name c n s) i = (if i = c then (clients s c)\<lparr>name := Some n\<rparr> else clients s i)"
  by (simp_all add: set_name_def members_def)

lemma set_room_fields [simp]:
  "rooms (set_room c r s) = rooms s"
  "clients_by_name (set_room c r s) = clients_by_name s"
  "files (set_room c r s) = files s"
  "events (set_room c r s) = events s"
  "members (set_room c r s) r' = members s r'"
  "clients (set_room c r s) i = (if i = c then (clients s c)\<lparr>room := Some r\<rparr> else clients s i)"
  by (simp_all add: set_room_def members_def)

lemma bind_name_fields [simp]:
  "rooms (bind_name n c s) = rooms s"
  "clients_by_name (bind_name n c s) = (clients_by_name s)(n \<mapsto> c)"
  "files (bind_name n c s) = files s"
  "events (bind_name n c s) = events s"
  "members (bind_name n c s) r = members s r"
  "clients (bind_name n c s) = clients s"
  by (simp_all add: bind_name_def members_def)

lemma release_name_fields [simp]:
  "rooms (release_name c s) = rooms s"
  "files (release_name c s) = files s"
  "events (release_name c s) = events s"
  "members (release_name c s) r = members s r"
  "clients (release_name c s) = clients s"
  by (simp_all add: release_name_def members_def split: option.splits)


lemma add_member_fields [simp]:
  "clients_by_name (add_member r c s) = clients_by_name s"
  "files (add_member r c s) = files s"
  "events (add_member r c s) = events s"
  "clients (add_member r c s) = clients s"
  "rooms (add_member r c s) r' = (if r' = r then Some (finsert c (members s r)) else rooms s r')"
  "members (add_member r c s) r' = (if r' = r then finsert c (members s r) else members s r')"
  by (simp_all add: add_member_def members_def)

lemma leave_old_clients:
  "clients (leave_old c s) i =
     (case room (clients s c) of
        None \<Rightarrow> clients s i
      | Some old \<Rightarrow>
          if old \<noteq> [] \<and> i |\<in>| members s old \<and> i \<noteq> c
          then put_nowait (Info (fmt (name (clients s c)) @ u '' left room '' @ old)) (clients s i)
          else clients s i)"
  by (auto simp: leave_old_def del_if_empty_def discard_def broadcast_clients members_def
      split: option.splits)



lemma put_full: "200 \<le> length (out_q (clients s c)) \<Longrightarrow> put c e s = (Suspended, s)"
  by (simp add: put_def q_full_def out_q_maxsize_def)


section \<open>Routing\<close>

lemma get_Some [simp]: "m k = Some v \<Longrightarrow> get m k d = v"
  by (simp add: get_def)







lemma dispatch_raised:
  "route lib uid c m s = (Raised, s') \<Longrightarrow>
     dispatch lib uid \<lparr>ev_client = c, ev_msg = m\<rparr> s =
       put c (Error (u ''Server-side processing error'')) s'"
  by (simp add: dispatch_def)

section \<open>Chat messages\<close>




section \<open>Hello\<close>

lemma strip_clean: "\<not> list_ex isspace s \<Longrightarrow> strip s = s"
proof -
  assume a: "\<not> list_ex isspace s"
  have d: "dropWhile isspace xs = xs" if "\<not> list_ex isspace xs" for xs
    using that by (cases xs) (simp_all add: list_ex_iff)
  from a have "\<not> list_ex isspace (rev s)" by (simp add: list_ex_iff)
  with a show ?thesis by (simp add: strip_def d)
qed




lemma init_server_fields [simp]:
  "clients init_server i = new_client" "events init_server = []" "rooms init_server r = None"
  "clients_by_name init_server n = None" "files init_server f = None"
  "members init_server r = {||}"
  by (simp_all add: init_server_def members_def)

lemma new_client_fields [simp]:
  "name new_client = None" "room new_client = None" "out_q new_client = []"
  "writer_closed new_client = False" "sent new_client = []"
  by (simp_all add: new_client_def)




lemma msg_of_fields [simp]:
  "msg_of t (u ''type'') = Some (JStr (u ''msg''))"
  "get (msg_of t) (u ''text'') d = JStr t"
  by (simp_all add: msg_of_def get_def)

lemma rstrip_nl_examples [simp]:
  "rstrip_nl (u ''hi'') = u ''hi''" "rstrip_nl (u ''hi'' @ [10]) = u ''hi''"
  "rstrip_nl [] = []"
  by (simp_all add: rstrip_nl_def u_def)

lemma lobby_fields [simp]: "truthy_str (Some (u ''lobby''))" "truthy_str (Some (u ''alice''))"
  by simp_all



section \<open>The sender of a chat message is a target of its own broadcast\<close>



section \<open>Private messages\<close>





lemma pm_of_fields [simp]:
  "pm_of to t (u ''type'') = Some (JStr (u ''pm''))"
  "get (pm_of to t) (u ''to'') d = JStr to"
  "get (pm_of to t) (u ''text'') d = JStr t"
  by (simp_all add: pm_of_def get_def)

lemma strip_examples [simp]:
  "strip (u ''alice'') = u ''alice''" "strip (u ''bob'') = u ''bob''" "strip [] = []"
  by (simp_all add: strip_def isspace_def u_def)



section \<open>Hello: claiming a name\<close>










lemma hello_of_fields [simp]:
  "hello_of n (u ''type'') = Some (JStr (u ''hello''))"
  "get (hello_of n) (u ''name'') d = JStr (u n)"
  by (simp_all add: hello_of_def get_def)

lemma name_examples [simp]:
  "\<not> list_ex isspace (u ''alice'')" "\<not> list_ex isspace (u ''bob'')"
  "list_ex isspace (u ''a b'')" "list_ex isspace (u '' bob'')"
  "strip (u ''a b'') = u ''a b''" "strip (u '' bob'') = u ''bob''"
  by (simp_all add: strip_def isspace_def u_def)



section \<open>Joining a room\<close>






lemma leave_old_own_queue [simp]: "clients (leave_old c s) c = clients s c"
  by (simp add: leave_old_clients split: option.splits)





lemma join_of_fields [simp]:
  "join_of r (u ''type'') = Some (JStr (u ''join''))"
  "get (join_of r) (u ''room'') d = JStr r"
  by (simp_all add: join_of_def get_def)

lemma room_examples [simp]:
  "strip (u ''lobby'') = u ''lobby''" "strip (u ''dev'') = u ''dev''"
  "strip (replicate 41 97) = replicate 41 97"
proof -
  have "\<not> list_ex isspace (replicate 41 97)"
    by (simp add: list_ex_iff isspace_def)
  then show "strip (replicate 41 97) = replicate 41 97" by (rule strip_clean)
qed (simp_all add: strip_def isspace_def u_def)



section \<open>File relay\<close>













section \<open>A transfer record outlives the name of its uploader\<close>

lemma file_msgs_fields [simp]:
  "file_start_of fname sz (u ''type'') = Some (JStr (u ''file_start''))"
  "get (file_start_of fname sz) (u ''filename'') d = JStr fname"
  "file_start_of fname sz (u ''size'') = Some sz"
  "file_chunk_of fid seq data (u ''type'') = Some (JStr (u ''file_chunk''))"
  "get (file_chunk_of fid seq data) (u ''id'') d = JStr fid"
  "file_chunk_of fid seq data (u ''seq'') = Some (JInt seq)"
  "get (file_chunk_of fid seq data) (u ''data'') d = JStr data"
  "file_end_of fid (u ''type'') = Some (JStr (u ''file_end''))"
  "get (file_end_of fid) (u ''id'') d = JStr fid"
  by (simp_all add: file_start_of_def file_chunk_of_def file_end_of_def get_def)

lemma more_examples [simp]:
  "strip (u ''a.txt'') = u ''a.txt''" "strip (u ''f1'') = u ''f1''" "strip (u ''zz'') = u ''zz''"
  "strip (u ''carol'') = u ''carol''" "\<not> list_ex isspace (u ''carol'')"
  by (simp_all add: strip_def isspace_def u_def)

lemma example_lib_b64 [simp]: "b64decode_ok example_lib (u ''aGk='')"
  by (simp add: example_lib_def)

lemma members_update [simp]:
  "members (s\<lparr>files := f\<rparr>) r = members s r"
  "members (s\<lparr>events := e\<rparr>) r = members s r"
  by (simp_all add: members_def)











end
